theory Spec2Isabelle
  imports Main
begin

section \<open>Python values, exceptions and strings\<close>

text \<open>
  The handler of \<^verbatim>\<open>src/backend/checkCitation/handler.py\<close> receives a decoded JSON
  document and works on its values. A Python \<^verbatim>\<open>str\<close> is a sequence of Unicode code
  points and is modelled as a list of natural numbers; \<open>codes\<close> turns a literal of the
  source into its code points. A \<^verbatim>\<open>dict\<close> is an association list in insertion order,
  looked up with \<^const>\<open>map_of\<close>.
\<close>

type_synonym pystr = "nat list"

definition cp :: "char \<Rightarrow> nat" where
  "cp c = of_char c"

definition codes :: "string \<Rightarrow> pystr" where
  "codes s = map cp s"

datatype pyval =
    PNone
  | PBool bool
  | PInt int
  | PStr pystr
  | PList "pyval list"
  | PDict "(pystr \<times> pyval) list"

text \<open>
  The two exceptions the code can meet: a method missing on a value
  (\<^verbatim>\<open>event.get\<close>, \<^verbatim>\<open>.lower()\<close>), carrying the type's name and the attribute, and
  \<^verbatim>\<open>re.match\<close> applied to something that is not a string, carrying the type's name.
\<close>

datatype exn =
    AttributeError pystr pystr
  | TypeError pystr

fun type_name :: "pyval \<Rightarrow> pystr" where
  "type_name PNone = codes ''NoneType''"
| "type_name (PBool b) = codes ''bool''"
| "type_name (PInt i) = codes ''int''"
| "type_name (PStr s) = codes ''str''"
| "type_name (PList xs) = codes ''list''"
| "type_name (PDict kvs) = codes ''dict''"

text \<open>\<^verbatim>\<open>str(e)\<close>, the message of an exception (the wording of CPython 3.11).\<close>

fun str_exn :: "exn \<Rightarrow> pystr" where
  "str_exn (AttributeError t a) =
     [cp CHR 0x27] @ t @ [cp CHR 0x27] @ codes '' object has no attribute '' @
     [cp CHR 0x27] @ a @ [cp CHR 0x27]"
| "str_exn (TypeError t) =
     codes ''expected string or bytes-like object, got '' @ [cp CHR 0x27] @ t @ [cp CHR 0x27]"

text \<open>
  \<^verbatim>\<open>str.lower()\<close>. On the code points 0 to 255 the letters A to Z and the Latin-1
  capitals 0xC0 to 0xDE (the multiplication sign 0xD7 is not a letter) move up by 32 and
  every other character stays; a string of such code points is lowered character by
  character. For a string with a code point above 255 the result is read from the
  case tables of the interpreter's Unicode database, which are not part of the
  repository: there the model takes the lowering as the parameter \<open>ucd_lower\<close>.
\<close>

definition lower_char :: "char \<Rightarrow> char" where
  "lower_char c =
     (let n = (of_char c :: nat) in
      if (65 \<le> n \<and> n \<le> 90) \<or> (192 \<le> n \<and> n \<le> 222 \<and> n \<noteq> 215)
      then char_of (n + 32) else c)"

definition str_lower :: "(pystr \<Rightarrow> pystr) \<Rightarrow> pystr \<Rightarrow> pystr" where
  "str_lower ucd_lower s =
     (if list_all (\<lambda>n. n < 256) s then map (\<lambda>n. cp (lower_char (char_of n))) s
      else ucd_lower s)"

text \<open>\<^verbatim>\<open>v.lower()\<close> on any value: only a string has the method.\<close>

fun py_lower :: "(pystr \<Rightarrow> pystr) \<Rightarrow> pyval \<Rightarrow> exn + pyval" where
  "py_lower ucd_lower (PStr s) = Inr (PStr (str_lower ucd_lower s))"
| "py_lower ucd_lower v = Inl (AttributeError (type_name v) (codes ''lower''))"

text \<open>\<^verbatim>\<open>v.get(key, default)\<close> on any value: only a dict has the method.\<close>

fun py_get :: "pyval \<Rightarrow> pystr \<Rightarrow> pyval \<Rightarrow> exn + pyval" where
  "py_get (PDict kvs) k dflt = Inr (case map_of kvs k of None \<Rightarrow> dflt | Some v \<Rightarrow> v)"
| "py_get v k dflt = Inl (AttributeError (type_name v) (codes ''get''))"

section \<open>The regular expressions of the validator\<close>

text \<open>
  The two patterns use a start anchor, literal characters, a negated one-character set,
  the class \<^verbatim>\<open>\d\<close>, the dot, a counted repeat and the greedy \<^verbatim>\<open>+\<close>, each applied to
  a single-character matcher.

  The patterns are \<^verbatim>\<open>str\<close> patterns compiled without flags, so \<^verbatim>\<open>\d\<close> accepts every
  Unicode decimal digit (general category Nd), not only 0 to 9. In Unicode 14.0, the
  database of CPython 3.11, these are 66 runs of ten consecutive code points, each
  starting at the digit zero of a script; \<open>nd_zeros\<close> lists the zeros. Without the
  DOTALL flag the dot accepts every character but the line feed.
\<close>

definition nd_zeros :: "nat list" where
  "nd_zeros =
     [0x30, 0x660, 0x6F0, 0x7C0, 0x966, 0x9E6, 0xA66, 0xAE6, 0xB66, 0xBE6, 0xC66, 0xCE6,
      0xD66, 0xDE6, 0xE50, 0xED0, 0xF20, 0x1040, 0x1090, 0x17E0, 0x1810, 0x1946, 0x19D0,
      0x1A80, 0x1A90, 0x1B50, 0x1BB0, 0x1C40, 0x1C50, 0xA620, 0xA8D0, 0xA900, 0xA9D0,
      0xA9F0, 0xAA50, 0xABF0, 0xFF10, 0x104A0, 0x10D30, 0x11066, 0x110F0, 0x11136,
      0x111D0, 0x112F0, 0x11450, 0x114D0, 0x11650, 0x116C0, 0x11730, 0x118E0, 0x11950,
      0x11C50, 0x11D50, 0x11DA0, 0x16A60, 0x16AC0, 0x16B50, 0x1D7CE, 0x1D7D8, 0x1D7E2,
      0x1D7EC, 0x1D7F6, 0x1E140, 0x1E2F0, 0x1E950, 0x1FBF0]"

definition is_decimal :: "nat \<Rightarrow> bool" where
  "is_decimal n = list_ex (\<lambda>z. z \<le> n \<and> n \<le> z + 9) nd_zeros"

datatype atom =
    Lit nat
  | NotIn pystr
  | Digit
  | AnyChar

datatype item =
    Bol
  | One atom
  | Exactly nat atom
  | Plus atom

fun atom_ok :: "atom \<Rightarrow> nat \<Rightarrow> bool" where
  "atom_ok (Lit c) x = (x = c)"
| "atom_ok (NotIn cs) x = (x \<notin> set cs)"
| "atom_ok Digit x = is_decimal x"
| "atom_ok AnyChar x = (x \<noteq> cp CHR 0x0A)"

text \<open>
  A greedy repeat first takes as many characters as it can and gives them back one at
  a time while the rest of the pattern fails: \<open>try_counts f n\<close> tries the counts
  \<open>n\<close>, \<open>n - 1\<close>, down to 1 and keeps the first success.
\<close>

fun try_counts :: "(nat \<Rightarrow> nat option) \<Rightarrow> nat \<Rightarrow> nat option" where
  "try_counts f 0 = None"
| "try_counts f (Suc k) = (case f (Suc k) of Some e \<Rightarrow> Some e | None \<Rightarrow> try_counts f k)"

text \<open>
  The backtracking matcher: \<open>match_items its pos s\<close> matches the items \<open>its\<close>
  against the text \<open>s\<close> that starts at offset \<open>pos\<close> of the subject, and returns
  the offset where the first match it finds ends.
\<close>

fun match_items :: "item list \<Rightarrow> nat \<Rightarrow> pystr \<Rightarrow> nat option" where
  "match_items [] pos s = Some pos"
| "match_items (Bol # its) pos s = (if pos = 0 then match_items its pos s else None)"
| "match_items (One a # its) pos s =
     (case s of
        [] \<Rightarrow> None
      | c # cs \<Rightarrow> if atom_ok a c then match_items its (pos + 1) cs else None)"
| "match_items (Exactly n a # its) pos s =
     (if n \<le> length s \<and> list_all (atom_ok a) (take n s)
      then match_items its (pos + n) (drop n s) else None)"
| "match_items (Plus a # its) pos s =
     try_counts (\<lambda>k. match_items its (pos + k) (drop k s))
       (length (takeWhile (atom_ok a) s))"

text \<open>
  \<^verbatim>\<open>re.match(pattern, subject)\<close>: a match anchored at offset 0 (here its end offset)
  or \<^verbatim>\<open>None\<close>; a subject that is not a string raises \<^verbatim>\<open>TypeError\<close>.
\<close>

fun re_match :: "item list \<Rightarrow> pyval \<Rightarrow> exn + nat option" where
  "re_match p (PStr s) = Inr (match_items p 0 s)"
| "re_match p v = Inl (TypeError (type_name v))"

text \<open>The pattern \<^verbatim>\<open>^[^(]+\(\d{4}\)\..+\<close> of \<^verbatim>\<open>validate_apa\<close>.\<close>

definition apa_pattern :: "item list" where
  "apa_pattern =
     [Bol, Plus (NotIn [cp CHR ''('']), One (Lit (cp CHR ''('')), Exactly 4 Digit,
      One (Lit (cp CHR '')'')), One (Lit (cp CHR ''.'')), Plus AnyChar]"

text \<open>The pattern \<^verbatim>\<open>^[^.]+\..+\<close> of \<^verbatim>\<open>validate_mla\<close>.\<close>

definition mla_pattern :: "item list" where
  "mla_pattern = [Bol, Plus (NotIn [cp CHR ''.'']), One (Lit (cp CHR ''.'')), Plus AnyChar]"

section \<open>The validator\<close>

type_synonym pydict = "(pystr \<times> pyval) list"

definition validate_apa :: "pyval \<Rightarrow> exn + pydict" where
  "validate_apa citation =
     (case re_match apa_pattern citation of
        Inl e \<Rightarrow> Inl e
      | Inr m \<Rightarrow>
          Inr [(codes ''formatCorrect'', PBool (m \<noteq> None)),
               (codes ''hasRequiredFields'', PBool (m \<noteq> None)),
               (codes ''issues'',
                PList (if m \<noteq> None then [] else [PStr (codes ''Does not match APA format'')]))])"

definition validate_mla :: "pyval \<Rightarrow> exn + pydict" where
  "validate_mla citation =
     (case re_match mla_pattern citation of
        Inl e \<Rightarrow> Inl e
      | Inr m \<Rightarrow>
          Inr [(codes ''formatCorrect'', PBool (m \<noteq> None)),
               (codes ''hasRequiredFields'', PBool (m \<noteq> None)),
               (codes ''issues'',
                PList (if m \<noteq> None then [] else [PStr (codes ''Does not match MLA format'')]))])"

definition validate_citation :: "pyval \<Rightarrow> pyval \<Rightarrow> exn + pydict" where
  "validate_citation citation format_type =
     (if format_type = PStr (codes ''apa'') then validate_apa citation
      else if format_type = PStr (codes ''mla'') then validate_mla citation
      else Inr [(codes ''formatCorrect'', PBool False),
                (codes ''issues'', PList [PStr (codes ''Unsupported format'')])])"

section \<open>Serialisation and the request handler\<close>

text \<open>
  \<^verbatim>\<open>json.dumps\<close> with its defaults: \<^verbatim>\<open>ensure_ascii\<close> escapes the quote, the backslash
  and every character outside the printable ASCII range, a code point above 0xFFFF as a
  surrogate pair; items are separated by a comma and a space, keys from values by a
  colon and a space.
\<close>

definition hex_digit :: "nat \<Rightarrow> nat" where
  "hex_digit n = cp (''0123456789abcdef'' ! (n mod 16))"

definition u_escape :: "nat \<Rightarrow> pystr" where
  "u_escape n =
     [cp CHR 0x5C, cp CHR ''u'', hex_digit (n div 4096), hex_digit (n div 256),
      hex_digit (n div 16), hex_digit n]"

definition json_escape :: "nat \<Rightarrow> pystr" where
  "json_escape n =
     (if n = cp CHR 0x22 then [cp CHR 0x5C, cp CHR 0x22]
      else if n = cp CHR 0x5C then [cp CHR 0x5C, cp CHR 0x5C]
      else if n = cp CHR 0x0A then [cp CHR 0x5C, cp CHR ''n'']
      else if n = cp CHR 0x0D then [cp CHR 0x5C, cp CHR ''r'']
      else if n = cp CHR 0x09 then [cp CHR 0x5C, cp CHR ''t'']
      else if n = cp CHR 0x08 then [cp CHR 0x5C, cp CHR ''b'']
      else if n = cp CHR 0x0C then [cp CHR 0x5C, cp CHR ''f'']
      else if 32 \<le> n \<and> n \<le> 126 then [n]
      else if n < 0x10000 then u_escape n
      else u_escape (0xD800 + (n - 0x10000) div 1024 mod 1024) @
           u_escape (0xDC00 + (n - 0x10000) mod 1024))"

definition json_str :: "pystr \<Rightarrow> pystr" where
  "json_str s = [cp CHR 0x22] @ concat (map json_escape s) @ [cp CHR 0x22]"

fun show_nat :: "nat \<Rightarrow> pystr" where
  "show_nat n =
     (if n < 10 then [cp (''0123456789'' ! n)]
      else show_nat (n div 10) @ [cp (''0123456789'' ! (n mod 10))])"

definition show_int :: "int \<Rightarrow> pystr" where
  "show_int i = (if i < 0 then codes ''-'' @ show_nat (nat (- i)) else show_nat (nat i))"

fun join :: "pystr \<Rightarrow> pystr list \<Rightarrow> pystr" where
  "join sep [] = []"
| "join sep [x] = x"
| "join sep (x # y # ys) = x @ sep @ join sep (y # ys)"

fun json_dumps :: "pyval \<Rightarrow> pystr" where
  "json_dumps PNone = codes ''null''"
| "json_dumps (PBool b) = (if b then codes ''true'' else codes ''false'')"
| "json_dumps (PInt i) = show_int i"
| "json_dumps (PStr s) = json_str s"
| "json_dumps (PList xs) = codes ''['' @ join (codes '', '') (map json_dumps xs) @ codes '']''"
| "json_dumps (PDict kvs) =
     codes ''{'' @
     join (codes '', '') (map (\<lambda>kv. json_str (fst kv) @ codes '': '' @ json_dumps (snd kv)) kvs) @
     codes ''}''"

record response =
  statusCode :: int
  body :: pystr

text \<open>
  \<^verbatim>\<open>lambda_handler(event, context)\<close>: every exception of the \<^verbatim>\<open>try\<close> block is
  caught and reported with status 500.
\<close>

definition handler_try :: "(pystr \<Rightarrow> pystr) \<Rightarrow> pyval \<Rightarrow> exn + pydict" where
  "handler_try ucd_lower event =
     (case py_get event (codes ''citation'') (PStr (codes '''')) of
        Inl e \<Rightarrow> Inl e
      | Inr citation \<Rightarrow>
          (case py_get event (codes ''format'') (PStr (codes ''apa'')) of
             Inl e \<Rightarrow> Inl e
           | Inr f \<Rightarrow>
               (case py_lower ucd_lower f of
                  Inl e \<Rightarrow> Inl e
                | Inr format_type \<Rightarrow> validate_citation citation format_type)))"

definition lambda_handler :: "(pystr \<Rightarrow> pystr) \<Rightarrow> pyval \<Rightarrow> 'ctx \<Rightarrow> response" where
  "lambda_handler ucd_lower event context =
     (case handler_try ucd_lower event of
        Inr result \<Rightarrow> \<lparr>statusCode = 200, body = json_dumps (PDict result)\<rparr>
      | Inl e \<Rightarrow>
          \<lparr>statusCode = 500,
           body = json_dumps (PDict [(codes ''error'', PStr (str_exn e))])\<rparr>)"

section \<open>The structural rules as the specification words them\<close>

text \<open>
  The APA rule: one or more characters that are not an opening parenthesis (\<open>a\<close>), an
  opening parenthesis, exactly four digits (\<open>d\<close>), a closing parenthesis, a period,
  then one or more additional characters (\<open>rest\<close>). A digit is a character that
  \<^verbatim>\<open>\d\<close> accepts, a decimal digit of any script.
\<close>

definition apa_split :: "pystr \<Rightarrow> pystr \<Rightarrow> pystr \<Rightarrow> pystr \<Rightarrow> bool" where
  "apa_split s a d rest \<longleftrightarrow>
     s = a @ codes ''('' @ d @ codes '').'' @ rest \<and> a \<noteq> [] \<and> cp CHR ''('' \<notin> set a \<and>
     length d = 4 \<and> list_all is_decimal d \<and> rest \<noteq> []"

text \<open>
  The MLA rule: a non-empty leading segment (\<open>a\<close>, the text before the first period)
  terminated by a period, followed by at least one additional character (\<open>rest\<close>).
\<close>

definition mla_split :: "pystr \<Rightarrow> pystr \<Rightarrow> pystr \<Rightarrow> bool" where
  "mla_split s a rest \<longleftrightarrow>
     s = a @ codes ''.'' @ rest \<and> a \<noteq> [] \<and> cp CHR ''.'' \<notin> set a \<and> rest \<noteq> []"

text \<open>
  Two style identifiers are case variants of each other when they have the same length
  and, position by position, the same character or a character and its lowercase form.
\<close>

definition same_letter :: "char \<Rightarrow> char \<Rightarrow> bool" where
  "same_letter c d \<longleftrightarrow> c = d \<or> lower_char c = d \<or> lower_char d = c"

definition case_variant :: "string \<Rightarrow> string \<Rightarrow> bool" where
  "case_variant f g \<longleftrightarrow> list_all2 same_letter f g"

section \<open>Literals and code points\<close>

lemma codes_Nil: "codes [] = []"
  by (simp add: codes_def)

lemma codes_Cons: "codes (c # s) = cp c # codes s"
  by (simp add: codes_def)

lemma cp_eq_iff: "cp c = cp d \<longleftrightarrow> c = d"
  by (simp add: cp_def)

lemma cp_less_256: "cp c < 256"
  by (simp add: cp_def)

lemma char_of_cp: "char_of (cp c) = c"
  by (simp add: cp_def)

lemma codes_eq_iff: "codes s = codes t \<longleftrightarrow> s = t"
  unfolding codes_def by (rule inj_map_eq_map) (simp add: inj_on_def cp_def)

section \<open>What the matcher accepts\<close>

lemma try_counts_Some:
  "try_counts f n \<noteq> None \<longleftrightarrow> (\<exists>k. 1 \<le> k \<and> k \<le> n \<and> f k \<noteq> None)"
proof (induction n)
  case 0
  then show ?case by simp
next
  case (Suc n)
  show ?case
  proof (cases "f (Suc n)")
    case None
    have "(\<exists>k. 1 \<le> k \<and> k \<le> Suc n \<and> f k \<noteq> None) \<longleftrightarrow> (\<exists>k. 1 \<le> k \<and> k \<le> n \<and> f k \<noteq> None)"
      using None by (metis le_SucE le_SucI)
    with None Suc show ?thesis by simp
  next
    case (Some e)
    then have "\<exists>k. 1 \<le> k \<and> k \<le> Suc n \<and> f k \<noteq> None"
      by (intro exI [of _ "Suc n"]) simp
    with Some show ?thesis by simp
  qed
qed

lemma plus_any_last:
  "match_items [Plus AnyChar] pos s \<noteq> None \<longleftrightarrow> s \<noteq> [] \<and> hd s \<noteq> cp CHR 0x0A"
proof -
  have "match_items [Plus AnyChar] pos s \<noteq> None \<longleftrightarrow> 1 \<le> length (takeWhile (atom_ok AnyChar) s)"
    unfolding match_items.simps try_counts_Some by auto
  also have "\<dots> \<longleftrightarrow> s \<noteq> [] \<and> hd s \<noteq> cp CHR 0x0A"
    by (cases s) auto
  finally show ?thesis .
qed

lemma takeWhile_first:
  "x \<notin> set a \<Longrightarrow> takeWhile (\<lambda>c. c \<noteq> x) (a @ x # t) = a"
  by (induction a) auto

lemma first_split_unique:
  assumes "a @ x # t = a' @ x # t'" "x \<notin> set a" "x \<notin> set a'"
  shows "a = a' \<and> t = t'"
proof -
  have "takeWhile (\<lambda>c. c \<noteq> x) (a @ x # t) = takeWhile (\<lambda>c. c \<noteq> x) (a' @ x # t')"
    using assms(1) by simp
  then have "a = a'" using assms(2,3) by (simp add: takeWhile_first)
  with assms(1) show ?thesis by simp
qed

lemma plus_not_then_lit:
  "match_items (Plus (NotIn [x]) # One (Lit x) # its) pos s \<noteq> None \<longleftrightarrow>
     (\<exists>a t. s = a @ x # t \<and> a \<noteq> [] \<and> x \<notin> set a \<and>
        match_items its (pos + length a + 1) t \<noteq> None)"
  (is "?L \<longleftrightarrow> ?R")
proof
  assume ?L
  then obtain k where k: "1 \<le> k" "k \<le> length (takeWhile (atom_ok (NotIn [x])) s)"
    and m: "match_items (One (Lit x) # its) (pos + k) (drop k s) \<noteq> None"
    unfolding match_items.simps(5) try_counts_Some by blast
  from m obtain t where t: "drop k s = x # t" "match_items its (pos + k + 1) t \<noteq> None"
    by (cases "drop k s") (auto split: if_splits)
  let ?a = "take k s"
  have kl: "k \<le> length s"
    using k(2) length_takeWhile_le [of "atom_ok (NotIn [x])" s] by linarith
  have s: "s = ?a @ x # t" using t(1) by (metis append_take_drop_id)
  have pre: "?a = take k (takeWhile (atom_ok (NotIn [x])) s)"
    using k(2) by (metis takeWhile_dropWhile_id take_append take_all_iff append_Nil2
        diff_is_0_eq take_0 append.right_neutral)
  have sub: "set ?a \<subseteq> set (takeWhile (atom_ok (NotIn [x])) s)"
    by (subst pre) (rule set_take_subset)
  have "x \<notin> set ?a"
  proof
    assume "x \<in> set ?a"
    with sub have "x \<in> set (takeWhile (atom_ok (NotIn [x])) s)" by blast
    then have "atom_ok (NotIn [x]) x" by (blast dest: set_takeWhileD)
    then show False by simp
  qed
  moreover have "?a \<noteq> []" using k(1) kl by auto
  moreover have "length ?a = k" using kl by simp
  ultimately show ?R using s t(2) by metis
next
  assume ?R
  then obtain a t where s: "s = a @ x # t" and a: "a \<noteq> []" "x \<notin> set a"
    and m: "match_items its (pos + length a + 1) t \<noteq> None" by blast
  have "atom_ok (NotIn [x]) = (\<lambda>c. c \<noteq> x)" by (rule ext) auto
  then have tw: "takeWhile (atom_ok (NotIn [x])) s = a"
    using takeWhile_first [OF a(2), of t] s by simp
  have "1 \<le> length a" using a(1) by (cases a) auto
  moreover have "match_items (One (Lit x) # its) (pos + length a) (drop (length a) s) \<noteq> None"
    using m s by simp
  ultimately show ?L
    unfolding match_items.simps(5) try_counts_Some tw by blast
qed

lemma mla_match_iff:
  "match_items mla_pattern 0 s \<noteq> None \<longleftrightarrow>
     (\<exists>a rest. mla_split s a rest \<and> hd rest \<noteq> cp CHR 0x0A)"
proof -
  have "match_items mla_pattern 0 s \<noteq> None \<longleftrightarrow>
      match_items (Plus (NotIn [cp CHR ''.'']) # One (Lit (cp CHR ''.'')) # [Plus AnyChar]) 0 s
        \<noteq> None"
    by (simp add: mla_pattern_def)
  also have "\<dots> \<longleftrightarrow> (\<exists>a t. s = a @ cp CHR ''.'' # t \<and> a \<noteq> [] \<and> cp CHR ''.'' \<notin> set a \<and>
        match_items [Plus AnyChar] (0 + length a + 1) t \<noteq> None)"
    by (rule plus_not_then_lit)
  also have "\<dots> \<longleftrightarrow> (\<exists>a rest. mla_split s a rest \<and> hd rest \<noteq> cp CHR 0x0A)"
    unfolding plus_any_last mla_split_def codes_Cons codes_Nil by auto
  finally show ?thesis .
qed

lemma apa_tail_iff:
  "match_items [Exactly 4 Digit, One (Lit (cp CHR '')'')), One (Lit (cp CHR ''.'')), Plus AnyChar]
       pos t \<noteq> None
     \<longleftrightarrow> (\<exists>d rest. t = d @ codes '').'' @ rest \<and> length d = 4 \<and>
           list_all is_decimal d \<and> rest \<noteq> [] \<and> hd rest \<noteq> cp CHR 0x0A)"
  (is "?L \<longleftrightarrow> ?R")
proof
  assume L: ?L
  then have len: "4 \<le> length t" and dig: "list_all (atom_ok Digit) (take 4 t)"
    and m: "match_items [One (Lit (cp CHR '')'')), One (Lit (cp CHR ''.'')), Plus AnyChar]
              (pos + 4) (drop 4 t) \<noteq> None"
    by (auto split: if_splits)
  from m obtain u where u: "drop 4 t = cp CHR '')'' # u"
    and m2: "match_items [One (Lit (cp CHR ''.'')), Plus AnyChar] (pos + 4 + 1) u \<noteq> None"
    by (cases "drop 4 t") (auto split: if_splits)
  from m2 obtain rest where r: "u = cp CHR ''.'' # rest"
    and m3: "match_items [Plus AnyChar] (pos + 4 + 1 + 1) rest \<noteq> None"
    by (cases u) (auto split: if_splits)
  have "t = take 4 t @ codes '').'' @ rest"
    unfolding codes_Cons codes_Nil
    using u r by (metis append_take_drop_id append_Cons append_Nil)
  moreover have "length (take 4 t) = 4" using len by simp
  moreover have "list_all is_decimal (take 4 t)"
    using dig by (simp add: list_all_iff)
  moreover have "rest \<noteq> [] \<and> hd rest \<noteq> cp CHR 0x0A"
    using m3 unfolding plus_any_last .
  ultimately show ?R by blast
next
  assume ?R
  then obtain d rest where t: "t = d @ codes '').'' @ rest" and d: "length d = 4"
    "list_all is_decimal d" and r: "rest \<noteq> [] \<and> hd rest \<noteq> cp CHR 0x0A"
    by blast
  have "match_items [Plus AnyChar] (pos + 4 + 1 + 1) rest \<noteq> None"
    using r unfolding plus_any_last .
  moreover have "list_all (atom_ok Digit) d" using d(2) by (simp add: list_all_iff)
  ultimately show ?L using t d(1) by (simp add: codes_Cons codes_Nil)
qed

lemma apa_match_iff:
  "match_items apa_pattern 0 s \<noteq> None \<longleftrightarrow>
     (\<exists>a d rest. apa_split s a d rest \<and> hd rest \<noteq> cp CHR 0x0A)"
proof -
  have "match_items apa_pattern 0 s \<noteq> None \<longleftrightarrow>
      match_items (Plus (NotIn [cp CHR ''('']) # One (Lit (cp CHR ''('')) #
        [Exactly 4 Digit, One (Lit (cp CHR '')'')), One (Lit (cp CHR ''.'')), Plus AnyChar]) 0 s
        \<noteq> None"
    by (simp add: apa_pattern_def)
  also have "\<dots> \<longleftrightarrow> (\<exists>a t. s = a @ cp CHR ''('' # t \<and> a \<noteq> [] \<and> cp CHR ''('' \<notin> set a \<and>
        match_items [Exactly 4 Digit, One (Lit (cp CHR '')'')), One (Lit (cp CHR ''.'')), Plus AnyChar]
          (0 + length a + 1) t \<noteq> None)"
    by (rule plus_not_then_lit)
  also have "\<dots> \<longleftrightarrow> (\<exists>a d rest. apa_split s a d rest \<and> hd rest \<noteq> cp CHR 0x0A)"
    unfolding apa_tail_iff apa_split_def by (auto simp: codes_Cons codes_Nil)
  finally show ?thesis .
qed

section \<open>The verdicts of the validator\<close>

lemma validate_apa_str:
  "validate_apa (PStr s) =
     Inr [(codes ''formatCorrect'', PBool (match_items apa_pattern 0 s \<noteq> None)),
          (codes ''hasRequiredFields'', PBool (match_items apa_pattern 0 s \<noteq> None)),
          (codes ''issues'', PList (if match_items apa_pattern 0 s \<noteq> None then []
                              else [PStr (codes ''Does not match APA format'')]))]"
  unfolding validate_apa_def re_match.simps sum.case ..

lemma validate_mla_str:
  "validate_mla (PStr s) =
     Inr [(codes ''formatCorrect'', PBool (match_items mla_pattern 0 s \<noteq> None)),
          (codes ''hasRequiredFields'', PBool (match_items mla_pattern 0 s \<noteq> None)),
          (codes ''issues'', PList (if match_items mla_pattern 0 s \<noteq> None then []
                              else [PStr (codes ''Does not match MLA format'')]))]"
  unfolding validate_mla_def re_match.simps sum.case ..

lemma validate_citation_shapes:
  "validate_citation (PStr s) (PStr f) =
     Inr [(codes ''formatCorrect'', PBool True), (codes ''hasRequiredFields'', PBool True),
          (codes ''issues'', PList [])] \<or>
   validate_citation (PStr s) (PStr f) =
     Inr [(codes ''formatCorrect'', PBool False), (codes ''hasRequiredFields'', PBool False),
          (codes ''issues'', PList [PStr (codes ''Does not match APA format'')])] \<or>
   validate_citation (PStr s) (PStr f) =
     Inr [(codes ''formatCorrect'', PBool False), (codes ''hasRequiredFields'', PBool False),
          (codes ''issues'', PList [PStr (codes ''Does not match MLA format'')])] \<or>
   validate_citation (PStr s) (PStr f) =
     Inr [(codes ''formatCorrect'', PBool False),
          (codes ''issues'', PList [PStr (codes ''Unsupported format'')])]"
proof (cases "f = codes ''apa''")
  case True
  then show ?thesis
    by (cases "match_items apa_pattern 0 s") (simp_all add: validate_citation_def validate_apa_str)
next
  case False
  show ?thesis
  proof (cases "f = codes ''mla''")
    case True
    then show ?thesis
      by (cases "match_items mla_pattern 0 s")
        (simp_all add: validate_citation_def validate_mla_str codes_eq_iff)
  next
    case nm: False
    with False show ?thesis by (simp add: validate_citation_def)
  qed
qed

lemma validate_apa_empty:
  "validate_apa (PStr []) =
     Inr [(codes ''formatCorrect'', PBool False), (codes ''hasRequiredFields'', PBool False),
          (codes ''issues'', PList [PStr (codes ''Does not match APA format'')])]"
  by (simp add: validate_apa_def apa_pattern_def)


text \<open>
  The digits of \<^verbatim>\<open>\d\<close>: the ASCII digits are decimal digits, and so are the
  Arabic-Indic ones (U+0660 to U+0669); the superscript two (U+00B2) is not.
\<close>

lemma is_decimal_samples:
  "list_all is_decimal (codes ''0123456789'')"
  "list_all is_decimal [0x660, 0x661, 0x662, 0x663, 0x664, 0x665, 0x666, 0x667, 0x668, 0x669]"
  "\<not> is_decimal 0xB2"
  "\<not> is_decimal (cp CHR ''a'')"
  by (simp_all add: is_decimal_def nd_zeros_def codes_def cp_def)

text \<open>
  Claim C1, as the code has it. \<^verbatim>\<open>validate_apa\<close> answers \<open>formatCorrect = True\<close> with
  no issue exactly when the citation splits into one or more characters other than an
  opening parenthesis, an opening parenthesis, exactly four digits (decimal digits of
  any script, as \<^verbatim>\<open>\d\<close> takes them), a closing parenthesis, a period and one or more
  further characters \<^emph>\<open>the first of which is not a line feed\<close>; in every other case it
  answers \<open>formatCorrect = False\<close> with the single issue \<open>Does not match APA format\<close>.
  The citation is any sequence of code points.
\<close>

theorem validate_apa_accepts_iff:
  "validate_apa (PStr s) =
     (if (\<exists>a d rest. apa_split s a d rest \<and> hd rest \<noteq> cp CHR 0x0A)
      then Inr [(codes ''formatCorrect'', PBool True), (codes ''hasRequiredFields'', PBool True),
                (codes ''issues'', PList [])]
      else Inr [(codes ''formatCorrect'', PBool False), (codes ''hasRequiredFields'', PBool False),
                (codes ''issues'', PList [PStr (codes ''Does not match APA format'')])])"
  unfolding validate_apa_str apa_match_iff by simp

text \<open>
  Claim C1 as the specification words it fails: a citation whose period is followed by
  a line feed and a title has the worded shape (author segment \<open>Smith, J. \<close>, year
  \<open>2020\<close>, a non-empty remainder), and \<^verbatim>\<open>validate_apa\<close> rejects it, because the dot of
  the pattern does not accept a line feed.
\<close>

theorem apa_newline_counterexample:
  "apa_split (codes ''Smith, J. (2020).'' @ cp CHR 0x0A # codes ''A study of things.'')
       (codes ''Smith, J. '') (codes ''2020'') (cp CHR 0x0A # codes ''A study of things.'') \<and>
   validate_apa (PStr (codes ''Smith, J. (2020).'' @ cp CHR 0x0A # codes ''A study of things.'')) =
     Inr [(codes ''formatCorrect'', PBool False), (codes ''hasRequiredFields'', PBool False),
          (codes ''issues'', PList [PStr (codes ''Does not match APA format'')])]"
  by (simp add: apa_split_def validate_apa_def apa_pattern_def codes_Cons codes_Nil cp_eq_iff
      is_decimal_def nd_zeros_def cp_def)

text \<open>
  A year written in Arabic-Indic digits is a year for \<^verbatim>\<open>\d{4}\<close>: the citation
  \<open>Smith (\<close>, U+0662 U+0660 U+0662 U+0660, \<open>). T\<close> is accepted.
\<close>

lemma apa_accepts_arabic_indic_year:
  "validate_apa (PStr (codes ''Smith ('' @ [0x662, 0x660, 0x662, 0x660] @ codes ''). T'')) =
     Inr [(codes ''formatCorrect'', PBool True), (codes ''hasRequiredFields'', PBool True),
          (codes ''issues'', PList [])]"
proof -
  have "apa_split (codes ''Smith ('' @ [0x662, 0x660, 0x662, 0x660] @ codes ''). T'')
      (codes ''Smith '') [0x662, 0x660, 0x662, 0x660] (codes '' T'') \<and>
      hd (codes '' T'') \<noteq> cp CHR 0x0A"
    by (simp add: apa_split_def codes_Cons codes_Nil cp_eq_iff is_decimal_def nd_zeros_def)
  then have "\<exists>a d rest. apa_split (codes ''Smith ('' @ [0x662, 0x660, 0x662, 0x660] @ codes ''). T'')
      a d rest \<and> hd rest \<noteq> cp CHR 0x0A"
    by blast
  then show ?thesis
    unfolding validate_apa_str apa_match_iff by simp
qed

text \<open>
  Claim C2, as the code has it. \<^verbatim>\<open>validate_mla\<close> answers \<open>formatCorrect = True\<close> with
  no issue exactly when the citation has a non-empty segment before its first period and
  at least one character after that period, \<^emph>\<open>the first of which is not a line feed\<close>;
  in every other case it answers \<open>formatCorrect = False\<close> with the single issue
  \<open>Does not match MLA format\<close>. The citation is any sequence of code points.
\<close>

theorem validate_mla_accepts_iff:
  "validate_mla (PStr s) =
     (if (\<exists>a rest. mla_split s a rest \<and> hd rest \<noteq> cp CHR 0x0A)
      then Inr [(codes ''formatCorrect'', PBool True), (codes ''hasRequiredFields'', PBool True),
                (codes ''issues'', PList [])]
      else Inr [(codes ''formatCorrect'', PBool False), (codes ''hasRequiredFields'', PBool False),
                (codes ''issues'', PList [PStr (codes ''Does not match MLA format'')])])"
  unfolding validate_mla_str mla_match_iff by simp

text \<open>
  Claim C2 as the specification words it fails: a citation with a non-empty leading
  segment, a period and further text has the worded shape, and \<^verbatim>\<open>validate_mla\<close>
  rejects it when that text starts on a new line.
\<close>

theorem mla_newline_counterexample:
  "mla_split (codes ''Doe, Jane.'' @ cp CHR 0x0A # codes ''A Title.'') (codes ''Doe, Jane'')
       (cp CHR 0x0A # codes ''A Title.'') \<and>
   validate_mla (PStr (codes ''Doe, Jane.'' @ cp CHR 0x0A # codes ''A Title.'')) =
     Inr [(codes ''formatCorrect'', PBool False), (codes ''hasRequiredFields'', PBool False),
          (codes ''issues'', PList [PStr (codes ''Does not match MLA format'')])]"
  by (simp add: mla_split_def validate_mla_def mla_pattern_def codes_Cons codes_Nil cp_eq_iff)

text \<open>
  Claim C3 says that an unrecognised style yields a record with the three fields
  \<open>formatCorrect\<close>, \<open>hasRequiredFields\<close> and \<open>issues\<close>. The \<^verbatim>\<open>else\<close> branch of
  \<^verbatim>\<open>validate_citation\<close> builds a dict of two entries: for the style \<open>chicago\<close> the
  result has no \<open>hasRequiredFields\<close> key, unlike the dicts of \<^verbatim>\<open>validate_apa\<close> and
  \<^verbatim>\<open>validate_mla\<close>.
\<close>

theorem unsupported_style_result:
  "validate_citation (PStr (codes ''Smith, J. (2020). A study of things.''))
       (PStr (codes ''chicago'')) =
     Inr [(codes ''formatCorrect'', PBool False),
          (codes ''issues'', PList [PStr (codes ''Unsupported format'')])]"
  by (simp add: validate_citation_def codes_eq_iff)

text \<open>
  Claim C4. For every citation string and every style identifier, \<^verbatim>\<open>validate_citation\<close>
  returns a dict whose \<open>issues\<close> list is empty if and only if its \<open>formatCorrect\<close>
  entry is true.
\<close>

theorem issues_empty_iff_format_correct:
  "\<exists>r b xs. validate_citation (PStr s) (PStr f) = Inr r \<and>
     map_of r (codes ''formatCorrect'') = Some (PBool b) \<and>
     map_of r (codes ''issues'') = Some (PList xs) \<and> (xs = [] \<longleftrightarrow> b)"
  using validate_citation_shapes [of s f] by (elim disjE) (auto simp: codes_eq_iff)


text \<open>
  Claim C7 says that every result carries \<open>hasRequiredFields\<close>, equal to
  \<open>formatCorrect\<close>. For an unrecognised style the dict that \<^verbatim>\<open>validate_citation\<close>
  returns has no such key: looking it up gives nothing.
\<close>

theorem unsupported_style_lacks_field:
  "validate_citation (PStr []) (PStr (codes ''harvard'')) =
     Inr [(codes ''formatCorrect'', PBool False),
          (codes ''issues'', PList [PStr (codes ''Unsupported format'')])] \<and>
   map_of [(codes ''formatCorrect'', PBool False),
           (codes ''issues'', PList [PStr (codes ''Unsupported format'')])]
     (codes ''hasRequiredFields'') = None"
  by (simp add: validate_citation_def codes_eq_iff)

text \<open>
  For the two recognised styles the field is there and repeats \<open>formatCorrect\<close>.
\<close>

lemma recognised_styles_have_field:
  "f = codes ''apa'' \<or> f = codes ''mla'' \<Longrightarrow>
   \<exists>r b. validate_citation (PStr s) (PStr f) = Inr r \<and>
     map_of r (codes ''formatCorrect'') = Some (PBool b) \<and>
     map_of r (codes ''hasRequiredFields'') = Some (PBool b)"
  by (auto simp: validate_citation_def validate_apa_str validate_mla_str codes_eq_iff)

text \<open>
  Claim C10. For the style \<open>mla\<close> the character right after the first period
  decides: when it is a line feed the verdict is negative whatever follows, as for
  \<open>Smith.\<close>, line feed, \<open>Title\<close>; when it is any other character and the segment
  before the period is not empty, the verdict is positive.
\<close>

theorem mla_char_after_first_period:
  "cp CHR ''.'' \<notin> set a \<Longrightarrow>
   validate_mla (PStr (a @ codes ''.'' @ c # rest)) =
     (if a \<noteq> [] \<and> c \<noteq> cp CHR 0x0A
      then Inr [(codes ''formatCorrect'', PBool True), (codes ''hasRequiredFields'', PBool True),
                (codes ''issues'', PList [])]
      else Inr [(codes ''formatCorrect'', PBool False), (codes ''hasRequiredFields'', PBool False),
                (codes ''issues'', PList [PStr (codes ''Does not match MLA format'')])])"
proof -
  assume a: "cp CHR ''.'' \<notin> set a"
  have "(\<exists>a' rest'. mla_split (a @ codes ''.'' @ c # rest) a' rest' \<and> hd rest' \<noteq> cp CHR 0x0A)
      \<longleftrightarrow> a \<noteq> [] \<and> c \<noteq> cp CHR 0x0A"
  proof
    assume "\<exists>a' rest'. mla_split (a @ codes ''.'' @ c # rest) a' rest' \<and> hd rest' \<noteq> cp CHR 0x0A"
    then obtain a' rest' where eq: "a @ cp CHR ''.'' # (c # rest) = a' @ cp CHR ''.'' # rest'"
      and a': "cp CHR ''.'' \<notin> set a'" "a' \<noteq> []" and hd: "hd rest' \<noteq> cp CHR 0x0A"
      by (auto simp: mla_split_def codes_Cons codes_Nil)
    from first_split_unique [OF eq a a'(1)] have "a = a'" "rest' = c # rest" by simp_all
    with hd a'(2) show "a \<noteq> [] \<and> c \<noteq> cp CHR 0x0A" by simp
  next
    assume "a \<noteq> [] \<and> c \<noteq> cp CHR 0x0A"
    with a have "mla_split (a @ codes ''.'' @ c # rest) a (c # rest) \<and>
        hd (c # rest) \<noteq> cp CHR 0x0A"
      by (simp add: mla_split_def)
    then show "\<exists>a' rest'. mla_split (a @ codes ''.'' @ c # rest) a' rest' \<and>
        hd rest' \<noteq> cp CHR 0x0A"
      by blast
  qed
  then show ?thesis
    unfolding validate_mla_str mla_match_iff by simp
qed

theorem mla_char_after_first_period_witness:
  "cp CHR ''.'' \<notin> set (codes ''Smith'') \<and>
   validate_mla (PStr (codes ''Smith'' @ codes ''.'' @ cp CHR 0x0A # codes ''Title'')) =
     Inr [(codes ''formatCorrect'', PBool False), (codes ''hasRequiredFields'', PBool False),
          (codes ''issues'', PList [PStr (codes ''Does not match MLA format'')])]"
proof -
  have h: "cp CHR ''.'' \<notin> set (codes ''Smith'')"
    by (simp add: codes_Cons codes_Nil cp_eq_iff)
  show ?thesis
    using h mla_char_after_first_period [OF h, of "cp CHR 0x0A" "codes ''Title''"] by simp
qed

section \<open>The request boundary\<close>

lemma lower_char_idem: "lower_char (lower_char c) = lower_char c"
proof -
  have "of_char c < (256 :: nat)" by simp
  then show ?thesis
    unfolding lower_char_def Let_def by (auto simp: of_char_of)
qed

lemma same_letter_lower: "same_letter c d \<Longrightarrow> lower_char c = lower_char d"
  unfolding same_letter_def using lower_char_idem by metis

lemma case_variant_lower: "case_variant f g \<Longrightarrow> map lower_char f = map lower_char g"
  unfolding case_variant_def
  by (induction f g rule: list_all2_induct) (simp_all add: same_letter_lower)

text \<open>
  A string of code points below 256 is lowered character by character, whatever the
  Unicode tables say about other strings.
\<close>

lemma str_lower_codes: "str_lower ucd_lower (codes f) = codes (map lower_char f)"
  by (simp add: str_lower_def codes_def list_all_iff cp_less_256 char_of_cp)

lemma handler_default_citation:
  "map_of d (codes ''citation'') = None \<Longrightarrow>
   lambda_handler ucd_lower (PDict d) ctx =
   lambda_handler ucd_lower (PDict ((codes ''citation'', PStr []) # d)) ctx"
  by (simp add: lambda_handler_def handler_try_def codes_eq_iff codes_Nil)

lemma handler_default_format:
  "map_of d (codes ''format'') = None \<Longrightarrow>
   lambda_handler ucd_lower (PDict d) ctx =
   lambda_handler ucd_lower (PDict ((codes ''format'', PStr (codes ''apa'')) # d)) ctx"
  by (simp add: lambda_handler_def handler_try_def codes_eq_iff)

lemma handler_success:
  "map_of d (codes ''citation'') = Some c \<Longrightarrow> map_of d (codes ''format'') = Some (PStr f) \<Longrightarrow>
   validate_citation c (PStr (str_lower ucd_lower f)) = Inr r \<Longrightarrow>
   lambda_handler ucd_lower (PDict d) ctx = \<lparr>statusCode = 200, body = json_dumps (PDict r)\<rparr>"
  by (simp add: lambda_handler_def handler_try_def)

text \<open>
  The serialised verdicts, character by character: the three-field texts of the
  recognised styles and the two-field text of the \<^verbatim>\<open>else\<close> branch.
\<close>

lemma json_dumps_accepted:
  "json_dumps (PDict [(codes ''formatCorrect'', PBool True),
       (codes ''hasRequiredFields'', PBool True), (codes ''issues'', PList [])]) =
     codes (''{'' @ [CHR 0x22] @ ''formatCorrect'' @ [CHR 0x22] @ '': true, '' @
       [CHR 0x22] @ ''hasRequiredFields'' @ [CHR 0x22] @ '': true, '' @
       [CHR 0x22] @ ''issues'' @ [CHR 0x22] @ '': []}'')"
  by (simp add: json_str_def json_escape_def codes_def cp_def)

lemma json_dumps_rejected_apa:
  "json_dumps (PDict [(codes ''formatCorrect'', PBool False),
       (codes ''hasRequiredFields'', PBool False),
       (codes ''issues'', PList [PStr (codes ''Does not match APA format'')])]) =
     codes (''{'' @ [CHR 0x22] @ ''formatCorrect'' @ [CHR 0x22] @ '': false, '' @
       [CHR 0x22] @ ''hasRequiredFields'' @ [CHR 0x22] @ '': false, '' @
       [CHR 0x22] @ ''issues'' @ [CHR 0x22] @ '': ['' @
       [CHR 0x22] @ ''Does not match APA format'' @ [CHR 0x22] @ '']}'')"
  by (simp add: json_str_def json_escape_def codes_def cp_def)

lemma json_dumps_unsupported:
  "json_dumps (PDict [(codes ''formatCorrect'', PBool False),
       (codes ''issues'', PList [PStr (codes ''Unsupported format'')])]) =
     codes (''{'' @ [CHR 0x22] @ ''formatCorrect'' @ [CHR 0x22] @ '': false, '' @
       [CHR 0x22] @ ''issues'' @ [CHR 0x22] @ '': ['' @
       [CHR 0x22] @ ''Unsupported format'' @ [CHR 0x22] @ '']}'')"
  by (simp add: json_str_def json_escape_def codes_def cp_def)

text \<open>
  A request with neither field is answered as the empty citation under the style
  \<open>apa\<close>: status 200 and the serialised negative verdict.
\<close>

lemma empty_request_response:
  "lambda_handler ucd_lower (PDict []) ctx =
     \<lparr>statusCode = 200,
      body = codes (''{'' @ [CHR 0x22] @ ''formatCorrect'' @ [CHR 0x22] @ '': false, '' @
       [CHR 0x22] @ ''hasRequiredFields'' @ [CHR 0x22] @ '': false, '' @
       [CHR 0x22] @ ''issues'' @ [CHR 0x22] @ '': ['' @
       [CHR 0x22] @ ''Does not match APA format'' @ [CHR 0x22] @ '']}'')\<rparr>"
proof -
  have m: "map lower_char ''apa'' = ''apa''" by code_simp
  have low: "str_lower ucd_lower (codes ''apa'') = codes ''apa''"
    unfolding str_lower_codes m ..
  have "handler_try ucd_lower (PDict []) =
      Inr [(codes ''formatCorrect'', PBool False), (codes ''hasRequiredFields'', PBool False),
           (codes ''issues'', PList [PStr (codes ''Does not match APA format'')])]"
    by (simp add: handler_try_def low validate_citation_def codes_Nil validate_apa_empty)
  then show ?thesis
    by (simp only: lambda_handler_def sum.case json_dumps_rejected_apa)
qed

text \<open>
  Claim C6. The handler lowercases the style before it dispatches, so two requests that
  differ only in the letter case of the style get the same response, whatever the
  citation and the other fields are; \<open>APA\<close> against \<open>apa\<close> is the witness.
  (\<^verbatim>\<open>validate_citation\<close> itself compares the style as it is given: the lowering is
  the handler's.)
\<close>

theorem style_case_insensitive:
  "case_variant f g \<Longrightarrow>
   lambda_handler ucd_lower (PDict ((codes ''format'', PStr (codes f)) # d)) ctx =
   lambda_handler ucd_lower (PDict ((codes ''format'', PStr (codes g)) # d)) ctx"
  by (simp add: lambda_handler_def handler_try_def codes_eq_iff str_lower_codes
      case_variant_lower)

theorem style_case_insensitive_witness:
  "case_variant ''APA'' ''apa'' \<and>
   lambda_handler id
     (PDict [(codes ''format'', PStr (codes ''APA'')),
             (codes ''citation'', PStr (codes ''Smith, J. (2020). A study of things.''))]) () =
   lambda_handler id
     (PDict [(codes ''format'', PStr (codes ''apa'')),
             (codes ''citation'', PStr (codes ''Smith, J. (2020). A study of things.''))]) ()"
proof -
  have h: "case_variant ''APA'' ''apa''"
    by code_simp
  show ?thesis
    using h style_case_insensitive [OF h,
        of id "[(codes ''citation'', PStr (codes ''Smith, J. (2020). A study of things.''))]" "()"]
    by simp
qed

text \<open>
  Claim C8 says that on success the body of the response is the serialised
  \<open>ValidationResult\<close>, the record of \<open>formatCorrect\<close>, \<open>hasRequiredFields\<close> and
  \<open>issues\<close>. A request whose format is not recognised succeeds with status 200, and
  its body is the text of a two-field object: \<open>hasRequiredFields\<close> does not occur in it.
  (The defaults hold as the claim says, see \<open>handler_default_citation\<close> and
  \<open>handler_default_format\<close>; for the recognised styles the body has the three fields,
  see \<open>json_dumps_accepted\<close> and \<open>json_dumps_rejected_apa\<close>.)
\<close>

theorem unsupported_style_response:
  "lambda_handler ucd_lower
     (PDict [(codes ''citation'', PStr (codes ''Smith, J. (2020). A study of things.'')),
             (codes ''format'', PStr (codes ''Chicago''))]) ctx =
     \<lparr>statusCode = 200,
      body = codes (''{'' @ [CHR 0x22] @ ''formatCorrect'' @ [CHR 0x22] @ '': false, '' @
       [CHR 0x22] @ ''issues'' @ [CHR 0x22] @ '': ['' @
       [CHR 0x22] @ ''Unsupported format'' @ [CHR 0x22] @ '']}'')\<rparr>"
proof -
  have m: "map lower_char ''Chicago'' = ''chicago''" by code_simp
  have low: "str_lower ucd_lower (codes ''Chicago'') = codes ''chicago''"
    unfolding str_lower_codes m ..
  have "handler_try ucd_lower
     (PDict [(codes ''citation'', PStr (codes ''Smith, J. (2020). A study of things.'')),
             (codes ''format'', PStr (codes ''Chicago''))]) =
      Inr [(codes ''formatCorrect'', PBool False),
           (codes ''issues'', PList [PStr (codes ''Unsupported format'')])]"
    by (simp add: handler_try_def low validate_citation_def codes_eq_iff)
  then show ?thesis
    by (simp only: lambda_handler_def sum.case json_dumps_unsupported)
qed

end
